theory Spec2Isabelle
  imports Complex_Main
begin

section \<open>Data model (app/models, app/schemas)\<close>

text \<open>
  A naive Python \<open>datetime\<close> is modelled by the number of microseconds since
  0001-01-01T00:00:00 (ordinal day 1, a Monday), a \<open>timedelta\<close> by a number of
  microseconds. Both are \<open>int\<close>; the ranges Python enforces (\<open>datetime\<close>: years 1 to
  9999, \<open>timedelta\<close>: below 1000000000 days in magnitude) are checked where the code
  constructs a value, by \<open>timedelta_of_minutes\<close> and \<open>datetime_add\<close> below, which raise
  \<open>OverflowError\<close> as Python does.
\<close>

type_synonym datetime = int
type_synonym timedelta = int

definition MINUTE :: timedelta where
  "MINUTE = 60000000"

definition DAY :: timedelta where
  "DAY = 86400000000"

definition timedelta_minutes :: "int \<Rightarrow> timedelta" where
  \<comment> \<open>the length of \<open>n\<close> minutes\<close>
  "timedelta_minutes n = n * MINUTE"

datatype AppointmentStatus = PENDING | CONFIRMED | COMPLETED | CANCELLED | NO_SHOW

datatype AppointmentType = IN_SALON | AT_HOME

datatype UserRole = CLIENT | SALON_OWNER | STYLIST | ADMIN

text \<open>
  What a request can raise: \<open>HTTPException(status_code, detail)\<close> as the routers raise it,
  the \<open>ValueError\<close> of \<open>datetime.replace\<close> on an hour or minute out of range, the
  \<open>OverflowError\<close> of \<open>timedelta(..)\<close> and of \<open>datetime + timedelta\<close> out of range, the
  \<open>AttributeError\<close> of an attribute read on \<open>None\<close>, and the validation error (HTTP 422) of
  a request schema.
\<close>

datatype error =
    HTTPException nat string
  | ValueError
  | OverflowError
  | AttributeError
  | RequestValidationError string

record User =
  us_id :: int
  us_role :: UserRole

record Salon =
  sl_id :: int
  sl_owner_id :: int

record Service =
  sv_id :: int
  sv_is_active :: bool
  sv_duration_minutes :: int
  sv_price :: real
  sv_home_service_fee :: "real option"

text \<open>
  One entry \<open>{"start": "HH:MM", "end": "HH:MM"}\<close> of a day's working hours, as the four
  integers that \<open>map(int, time_slot["start"].split(":"))\<close> and the same for \<open>"end"\<close> yield.
  Entries on which the parsing itself raises are outside this type.
\<close>

record time_slot =
  start_hour :: int
  start_minute :: int
  end_hour :: int
  end_minute :: int

text \<open>
  \<open>Stylist.working_hours\<close> is a nullable JSON object from day name to a list of entries:
  an association list, \<open>None\<close> for SQL NULL. \<open>Stylist.services\<close> is the relationship through
  \<open>stylist_service\<close>, kept as the ids of the services offered.
\<close>

record Stylist =
  st_id :: int
  st_salon_id :: int
  st_full_name :: string
  st_is_active :: bool
  st_working_hours :: "(string \<times> time_slot list) list option"
  st_services :: "int list"

record Appointment =
  ap_id :: int
  ap_client_id :: int
  ap_service_id :: int
  ap_stylist_id :: int
  ap_start_time :: datetime
  ap_end_time :: datetime
  ap_status :: AppointmentStatus
  ap_appointment_type :: AppointmentType
  ap_address :: "string option"
  ap_price :: real
  ap_original_price :: real
  ap_discount_amount :: real
  ap_additional_fees :: real
  ap_is_paid :: bool
  ap_notes :: "string option"
  ap_cancellation_reason :: "string option"

record AppointmentCreate =
  ac_service_id :: int
  ac_stylist_id :: int
  ac_start_time :: datetime
  ac_appointment_type :: AppointmentType
  ac_address :: "string option"
  ac_notes :: "string option"

record AppointmentStatusUpdate =
  su_status :: AppointmentStatus
  su_cancellation_reason :: "string option"

record TimeSlot =
  ts_start_time :: datetime
  ts_end_time :: datetime
  ts_stylist_id :: int
  ts_stylist_name :: string

text \<open>The tables a request reads and writes; rows in table order.\<close>

record db =
  services :: "Service list"
  stylists :: "Stylist list"
  salons :: "Salon list"
  appointments :: "Appointment list"

section \<open>Time helpers\<close>

definition replace_hm :: "datetime \<Rightarrow> int \<Rightarrow> int \<Rightarrow> error + datetime" where
  \<comment> \<open>\<open>t.replace(hour=h, minute=m, second=0, microsecond=0)\<close>\<close>
  "replace_hm t h m =
     (if 0 \<le> h \<and> h \<le> 23 \<and> 0 \<le> m \<and> m \<le> 59
      then Inr ((t div DAY) * DAY + (h * 60 + m) * MINUTE)
      else Inl ValueError)"

definition timedelta_of_minutes :: "int \<Rightarrow> error + timedelta" where
  \<comment> \<open>\<open>timedelta(minutes=n)\<close>: the days of a \<open>timedelta\<close> lie between -999999999 and
      999999999\<close>
  "timedelta_of_minutes n =
     (if - 999999999 * DAY \<le> timedelta_minutes n \<and> timedelta_minutes n < 1000000000 * DAY
      then Inr (timedelta_minutes n)
      else Inl OverflowError)"

definition datetime_add :: "datetime \<Rightarrow> timedelta \<Rightarrow> error + datetime" where
  \<comment> \<open>\<open>t + td\<close>: the result lies between 0001-01-01T00:00:00 and the last microsecond of
      9999-12-31 (ordinal day 3652059)\<close>
  "datetime_add t td =
     (if 0 \<le> t + td \<and> t + td < 3652059 * DAY then Inr (t + td) else Inl OverflowError)"

definition day_of_week :: "datetime \<Rightarrow> string" where
  \<comment> \<open>\<open>t.strftime("%A").lower()\<close> in the C locale\<close>
  "day_of_week t =
     [''monday'', ''tuesday'', ''wednesday'', ''thursday'', ''friday'', ''saturday'', ''sunday'']
       ! nat ((t div DAY) mod 7)"

definition truthy_hours :: "(string \<times> time_slot list) list option \<Rightarrow> bool" where
  \<comment> \<open>truth value of \<open>stylist.working_hours\<close>: false for \<open>None\<close> and for the empty dict\<close>
  "truthy_hours wh = (case wh of None \<Rightarrow> False | Some m \<Rightarrow> m \<noteq> [])"

definition hours_get :: "(string \<times> time_slot list) list option \<Rightarrow> string \<Rightarrow> time_slot list" where
  \<comment> \<open>\<open>stylist.working_hours.get(day, [])\<close>\<close>
  "hours_get wh day =
     (case wh of None \<Rightarrow> []
      | Some m \<Rightarrow> (case map_of m day of None \<Rightarrow> [] | Some bs \<Rightarrow> bs))"

definition day_in_hours :: "string \<Rightarrow> (string \<times> time_slot list) list option \<Rightarrow> bool" where
  \<comment> \<open>\<open>day in stylist.working_hours\<close>\<close>
  "day_in_hours day wh =
     (case wh of None \<Rightarrow> False | Some m \<Rightarrow> map_of m day \<noteq> None)"

section \<open>Interval algebra\<close>

record TimeRange =
  tr_start :: datetime
  tr_end :: datetime

text \<open>The spec's two predicates (section 4.1), following the spec's words.\<close>

definition overlaps :: "TimeRange \<Rightarrow> TimeRange \<Rightarrow> bool" where
  "overlaps a b = (tr_start a < tr_end b \<and> tr_start b < tr_end a)"

definition contains :: "TimeRange \<Rightarrow> TimeRange \<Rightarrow> bool" where
  "contains outer inner = (tr_start outer \<le> tr_start inner \<and> tr_end inner \<le> tr_end outer)"

text \<open>
  The \<open>or_(and_(..), and_(..), and_(..))\<close> of both conflict queries, for a row
  \<open>[a_start, a_end)\<close> against a candidate \<open>[b_start, b_end)\<close>.
\<close>

definition time_conflict :: "datetime \<Rightarrow> datetime \<Rightarrow> datetime \<Rightarrow> datetime \<Rightarrow> bool" where
  "time_conflict a_start a_end b_start b_end =
     ((a_start \<le> b_start \<and> a_end > b_start)
      \<or> (a_start < b_end \<and> a_end \<ge> b_end)
      \<or> (a_start \<ge> b_start \<and> a_end \<le> b_end))"

definition conflicting :: "int \<Rightarrow> datetime \<Rightarrow> datetime \<Rightarrow> Appointment \<Rightarrow> bool" where
  \<comment> \<open>the filter of the conflict query\<close>
  "conflicting stylist_id b_start b_end a =
     (ap_stylist_id a = stylist_id
      \<and> ap_status a \<in> set [PENDING, CONFIRMED]
      \<and> time_conflict (ap_start_time a) (ap_end_time a) b_start b_end)"

definition conflicting_appointment ::
  "Appointment list \<Rightarrow> int \<Rightarrow> datetime \<Rightarrow> datetime \<Rightarrow> Appointment option" where
  \<comment> \<open>\<open>db.query(Appointment).filter(..).first()\<close>\<close>
  "conflicting_appointment rows stylist_id b_start b_end =
     List.find (conflicting stylist_id b_start b_end) rows"

section \<open>CreateAppointment (routers/appointments.py, create_appointment)\<close>

definition get_service :: "db \<Rightarrow> int \<Rightarrow> Service option" where
  \<comment> \<open>\<open>db.query(Service).filter(Service.id == id, Service.is_active == True).first()\<close>\<close>
  "get_service d service_id =
     List.find (\<lambda>s. sv_id s = service_id \<and> sv_is_active s) (services d)"

definition get_stylist :: "db \<Rightarrow> int \<Rightarrow> Stylist option" where
  "get_stylist d stylist_id =
     List.find (\<lambda>s. st_id s = stylist_id \<and> st_is_active s) (stylists d)"

text \<open>
  The \<open>for time_slot in ...\<close> loop of the working-hours check: \<open>Inr True\<close> on \<open>break\<close>,
  \<open>Inr False\<close> when the list is exhausted, \<open>Inl ValueError\<close> when \<open>replace\<close> raises.
\<close>

fun is_within_hours :: "datetime \<Rightarrow> datetime \<Rightarrow> time_slot list \<Rightarrow> error + bool" where
  "is_within_hours start_time end_time [] = Inr False"
| "is_within_hours start_time end_time (time_slot # rest) =
     (case replace_hm start_time (start_hour time_slot) (start_minute time_slot) of
        Inl e \<Rightarrow> Inl e
      | Inr work_start \<Rightarrow>
          (case replace_hm start_time (end_hour time_slot) (end_minute time_slot) of
             Inl e \<Rightarrow> Inl e
           | Inr work_end \<Rightarrow>
               if start_time \<ge> work_start \<and> end_time \<le> work_end then Inr True
               else is_within_hours start_time end_time rest))"

definition check_working_hours :: "Stylist \<Rightarrow> datetime \<Rightarrow> datetime \<Rightarrow> error + unit" where
  "check_working_hours stylist start_time end_time =
     (if truthy_hours (st_working_hours stylist) then
        (if day_in_hours (day_of_week start_time) (st_working_hours stylist) then
           (case is_within_hours start_time end_time
                   (hours_get (st_working_hours stylist) (day_of_week start_time)) of
              Inl e \<Rightarrow> Inl e
            | Inr inside \<Rightarrow>
                if inside then Inr ()
                else Inl (HTTPException 400
                       ''Appointment time is outside of stylist's working hours''))
         else Inl (HTTPException 400 (''Stylist does not work on '' @ day_of_week start_time)))
      else Inr ())"

definition next_id :: "Appointment list \<Rightarrow> int" where
  \<comment> \<open>the primary key the database gives the inserted row\<close>
  "next_id rows = fold max (map ap_id rows) 0 + 1"

definition calculate_end_time :: "datetime \<Rightarrow> Service \<Rightarrow> error + datetime" where
  \<comment> \<open>\<open>start_time + timedelta(minutes=service.duration_minutes)\<close>\<close>
  "calculate_end_time start_time service =
     (case timedelta_of_minutes (sv_duration_minutes service) of
        Inl e \<Rightarrow> Inl e
      | Inr service_duration \<Rightarrow> datetime_add start_time service_duration)"

definition create_appointment ::
  "db \<Rightarrow> User \<Rightarrow> AppointmentCreate \<Rightarrow> error + (Appointment \<times> db)" where
  "create_appointment d current_user appointment_data =
     (case get_service d (ac_service_id appointment_data) of
        None \<Rightarrow> Inl (HTTPException 404 ''Service not found or inactive'')
      | Some service \<Rightarrow>
     (case get_stylist d (ac_stylist_id appointment_data) of
        None \<Rightarrow> Inl (HTTPException 404 ''Stylist not found or inactive'')
      | Some stylist \<Rightarrow>
     (if sv_id service \<notin> set (st_services stylist)
      then Inl (HTTPException 400 ''Stylist does not offer this service'')
      else
     (case calculate_end_time (ac_start_time appointment_data) service of
        Inl e \<Rightarrow> Inl e
      | Inr end_time \<Rightarrow>
     (case conflicting_appointment (appointments d) (st_id stylist)
             (ac_start_time appointment_data) end_time of
        Some c \<Rightarrow> Inl (HTTPException 400 ''Time slot is not available'')
      | None \<Rightarrow>
     (case check_working_hours stylist (ac_start_time appointment_data) end_time of
        Inl e \<Rightarrow> Inl e
      | Inr u \<Rightarrow>
     (let price = sv_price service;
          additional_fees =
            (case sv_home_service_fee service of
               None \<Rightarrow> 0
             | Some fee \<Rightarrow>
                 if ac_appointment_type appointment_data = AT_HOME \<and> fee \<noteq> 0
                 then fee else 0);
          new_appointment =
            \<lparr>ap_id = next_id (appointments d),
             ap_client_id = us_id current_user,
             ap_service_id = sv_id service,
             ap_stylist_id = st_id stylist,
             ap_start_time = ac_start_time appointment_data,
             ap_end_time = end_time,
             ap_status = PENDING,
             ap_appointment_type = ac_appointment_type appointment_data,
             ap_address = ac_address appointment_data,
             ap_price = price + additional_fees,
             ap_original_price = price,
             ap_discount_amount = 0,
             ap_additional_fees = additional_fees,
             ap_is_paid = False,
             ap_notes = ac_notes appointment_data,
             ap_cancellation_reason = None\<rparr>
      in Inr (new_appointment,
              d\<lparr>appointments := appointments d @ [new_appointment]\<rparr>))))))))"

section \<open>GenerateSlots (routers/appointments.py, check_availability)\<close>

text \<open>
  The \<open>while slot_start + service_duration <= work_end\<close> loop, appending to
  \<open>available_slots\<close>. \<open>None\<close> stands for a loop that does not return; the sum in the loop
  condition and the step \<open>slot_start += timedelta(minutes=30)\<close> can raise.
\<close>

partial_function (option) slot_loop ::
  "Appointment list \<Rightarrow> Stylist \<Rightarrow> timedelta \<Rightarrow> datetime \<Rightarrow> datetime \<Rightarrow> TimeSlot list
     \<Rightarrow> (error + TimeSlot list) option" where
  "slot_loop rows stylist service_duration work_end slot_start available_slots =
     (case datetime_add slot_start service_duration of
        Inl e \<Rightarrow> Some (Inl e)
      | Inr slot_end \<Rightarrow>
          if slot_end \<le> work_end then
            (case datetime_add slot_start (timedelta_minutes 30) of
               Inl e \<Rightarrow> Some (Inl e)
             | Inr next_start \<Rightarrow>
                 slot_loop rows stylist service_duration work_end next_start
                   (if conflicting_appointment rows (st_id stylist) slot_start slot_end = None
                    then available_slots @
                           [\<lparr>ts_start_time = slot_start,
                             ts_end_time = slot_end,
                             ts_stylist_id = st_id stylist,
                             ts_stylist_name = st_full_name stylist\<rparr>]
                    else available_slots))
          else Some (Inr available_slots))"

text \<open>The \<open>for time_slot in working_hours\<close> loop of one stylist.\<close>

fun hours_loop ::
  "Appointment list \<Rightarrow> Stylist \<Rightarrow> Service \<Rightarrow> datetime \<Rightarrow> time_slot list \<Rightarrow> TimeSlot list
     \<Rightarrow> (error + TimeSlot list) option" where
  "hours_loop rows stylist service date [] available_slots = Some (Inr available_slots)"
| "hours_loop rows stylist service date (time_slot # rest) available_slots =
     (case replace_hm date (start_hour time_slot) (start_minute time_slot) of
        Inl e \<Rightarrow> Some (Inl e)
      | Inr work_start \<Rightarrow>
          (case replace_hm date (end_hour time_slot) (end_minute time_slot) of
             Inl e \<Rightarrow> Some (Inl e)
           | Inr work_end \<Rightarrow>
               (case timedelta_of_minutes (sv_duration_minutes service) of
                  Inl e \<Rightarrow> Some (Inl e)
                | Inr service_duration \<Rightarrow>
                    (case slot_loop rows stylist service_duration work_end work_start
                            available_slots of
                       None \<Rightarrow> None
                     | Some (Inl e) \<Rightarrow> Some (Inl e)
                     | Some (Inr available_slots') \<Rightarrow>
                         hours_loop rows stylist service date rest available_slots'))))"

text \<open>The \<open>for stylist in stylists\<close> loop.\<close>

fun stylists_loop ::
  "Appointment list \<Rightarrow> Service \<Rightarrow> datetime \<Rightarrow> Stylist list \<Rightarrow> TimeSlot list
     \<Rightarrow> (error + TimeSlot list) option" where
  "stylists_loop rows service date [] available_slots = Some (Inr available_slots)"
| "stylists_loop rows service date (stylist # rest) available_slots =
     (if \<not> truthy_hours (st_working_hours stylist)
         \<or> \<not> day_in_hours (day_of_week date) (st_working_hours stylist)
      then stylists_loop rows service date rest available_slots
      else
        (case hours_loop rows stylist service date
                (hours_get (st_working_hours stylist) (day_of_week date)) available_slots of
           None \<Rightarrow> None
         | Some (Inl e) \<Rightarrow> Some (Inl e)
         | Some (Inr available_slots') \<Rightarrow>
             stylists_loop rows service date rest available_slots'))"

definition query_stylists :: "db \<Rightarrow> int \<Rightarrow> int option \<Rightarrow> Stylist list" where
  \<comment> \<open>active stylists offering the service; \<open>if stylist_id:\<close> is false for \<open>None\<close> and for 0\<close>
  "query_stylists d service_id stylist_id =
     filter (\<lambda>s. st_is_active s \<and> service_id \<in> set (st_services s)
                 \<and> (case stylist_id of None \<Rightarrow> True
                     | Some i \<Rightarrow> if i \<noteq> 0 then st_id s = i else True))
       (stylists d)"

definition check_availability ::
  "db \<Rightarrow> int \<Rightarrow> datetime \<Rightarrow> int option \<Rightarrow> (error + TimeSlot list) option" where
  "check_availability d service_id date stylist_id =
     (case get_service d service_id of
        None \<Rightarrow> Some (Inl (HTTPException 404 ''Service not found or inactive''))
      | Some service \<Rightarrow>
          if query_stylists d service_id stylist_id = [] then Some (Inr [])
          else stylists_loop (appointments d) service date
                 (query_stylists d service_id stylist_id) [])"

section \<open>UpdateStatus (schemas/appointment.py, routers/appointments.py)\<close>

text \<open>
  A field of a JSON request body: left out, or given (\<open>Given None\<close> is JSON null).
\<close>

datatype 'a field = Missing | Given 'a

definition validate_cancellation_reason ::
  "AppointmentStatus \<Rightarrow> string option \<Rightarrow> error + string option" where
  \<comment> \<open>the \<open>@validator('cancellation_reason')\<close> of \<open>AppointmentStatusUpdate\<close>; \<open>not v\<close> holds
      for \<open>None\<close> and for the empty string\<close>
  "validate_cancellation_reason status v =
     (if status = CANCELLED \<and> (v = None \<or> v = Some [])
      then Inl (RequestValidationError
                  ''Cancellation reason is required when cancelling an appointment'')
      else Inr v)"

text \<open>
  Building an \<open>AppointmentStatusUpdate\<close> from a request body whose \<open>status\<close> is a valid
  enum value. The validator is declared without \<open>always=True\<close>, so pydantic does not call
  it for a field the body leaves out: the field takes its default \<open>None\<close> unvalidated.
\<close>

definition parse_AppointmentStatusUpdate ::
  "AppointmentStatus \<Rightarrow> string option field \<Rightarrow> error + AppointmentStatusUpdate" where
  "parse_AppointmentStatusUpdate status cancellation_reason =
     (case cancellation_reason of
        Missing \<Rightarrow> Inr \<lparr>su_status = status, su_cancellation_reason = None\<rparr>
      | Given v \<Rightarrow>
          (case validate_cancellation_reason status v of
             Inl e \<Rightarrow> Inl e
           | Inr v' \<Rightarrow> Inr \<lparr>su_status = status, su_cancellation_reason = v'\<rparr>))"

definition get_appointment_row :: "db \<Rightarrow> int \<Rightarrow> Appointment option" where
  "get_appointment_row d appointment_id =
     List.find (\<lambda>a. ap_id a = appointment_id) (appointments d)"

definition salon_owner_check :: "db \<Rightarrow> User \<Rightarrow> Appointment \<Rightarrow> error option" where
  \<comment> \<open>the \<open>SALON_OWNER\<close> branch: \<open>.first()\<close> may be \<open>None\<close>, whose attribute read raises\<close>
  "salon_owner_check d current_user appointment =
     (case List.find (\<lambda>s. st_id s = ap_stylist_id appointment) (stylists d) of
        None \<Rightarrow> Some AttributeError
      | Some stylist \<Rightarrow>
          (case List.find (\<lambda>s. sl_id s = st_salon_id stylist) (salons d) of
             None \<Rightarrow> Some AttributeError
           | Some salon \<Rightarrow>
               if sl_owner_id salon \<noteq> us_id current_user
               then Some (HTTPException 403 ''Not authorized to update this appointment'')
               else None))"

definition status_authorization ::
  "db \<Rightarrow> User \<Rightarrow> Appointment \<Rightarrow> AppointmentStatusUpdate \<Rightarrow> error option" where
  \<comment> \<open>the role checks of \<open>update_appointment_status\<close>; \<open>None\<close> when none of them raises\<close>
  "status_authorization d current_user appointment status_data =
     (case us_role current_user of
        CLIENT \<Rightarrow>
          if ap_client_id appointment \<noteq> us_id current_user
          then Some (HTTPException 403 ''Not authorized to update this appointment'')
          else if su_status status_data \<noteq> CANCELLED
          then Some (HTTPException 403 ''Clients can only cancel appointments'')
          else None
      | STYLIST \<Rightarrow>
          if ap_stylist_id appointment \<noteq> us_id current_user
          then Some (HTTPException 403 ''Not authorized to update this appointment'')
          else if su_status status_data \<notin> set [CONFIRMED, COMPLETED, NO_SHOW]
          then Some (HTTPException 403
                 ''Stylists can only confirm, complete, or mark appointments as no-show'')
          else None
      | SALON_OWNER \<Rightarrow> salon_owner_check d current_user appointment
      | ADMIN \<Rightarrow> None)"

fun store_row :: "Appointment \<Rightarrow> Appointment list \<Rightarrow> Appointment list" where
  \<comment> \<open>write the modified row back in place of the row the query returned\<close>
  "store_row a [] = []"
| "store_row a (r # rows) = (if ap_id r = ap_id a then a # rows else r # store_row a rows)"

definition update_appointment_status ::
  "db \<Rightarrow> User \<Rightarrow> int \<Rightarrow> AppointmentStatusUpdate \<Rightarrow> error + (Appointment \<times> db)" where
  "update_appointment_status d current_user appointment_id status_data =
     (case get_appointment_row d appointment_id of
        None \<Rightarrow> Inl (HTTPException 404 ''Appointment not found'')
      | Some appointment \<Rightarrow>
          (case status_authorization d current_user appointment status_data of
             Some e \<Rightarrow> Inl e
           | None \<Rightarrow>
               (let appointment1 = appointment\<lparr>ap_status := su_status status_data\<rparr>;
                    appointment2 =
                      (if su_status status_data = CANCELLED
                          \<and> su_cancellation_reason status_data \<noteq> None
                          \<and> su_cancellation_reason status_data \<noteq> Some []
                       then appointment1\<lparr>ap_cancellation_reason :=
                                           su_cancellation_reason status_data\<rparr>
                       else appointment1)
                in Inr (appointment2,
                        d\<lparr>appointments := store_row appointment2 (appointments d)\<rparr>))))"

definition put_appointment_status ::
  "db \<Rightarrow> User \<Rightarrow> int \<Rightarrow> AppointmentStatus \<Rightarrow> string option field
     \<Rightarrow> error + (Appointment \<times> db)" where
  \<comment> \<open>the endpoint: the body is validated into the schema, then the handler runs\<close>
  "put_appointment_status d current_user appointment_id status cancellation_reason =
     (case parse_AppointmentStatusUpdate status cancellation_reason of
        Inl e \<Rightarrow> Inl e
      | Inr status_data \<Rightarrow> update_appointment_status d current_user appointment_id status_data)"

section \<open>Vocabulary of the statements\<close>

text \<open>
  The cursor positions the slot loop visits from \<open>slot_start\<close> in a run that does not
  raise: a total function, the cursor moves up by 30 minutes until it passes
  \<open>work_end - service_duration\<close>.
\<close>

function slot_starts :: "timedelta \<Rightarrow> datetime \<Rightarrow> datetime \<Rightarrow> datetime list" where
  "slot_starts service_duration work_end slot_start =
     (if slot_start + service_duration \<le> work_end
      then slot_start # slot_starts service_duration work_end (slot_start + timedelta_minutes 30)
      else [])"
  by pat_completeness auto
termination
  by (relation "measure (\<lambda>(d, e, s). nat (e - d - s + 1))")
     (auto simp: timedelta_minutes_def MINUTE_def)

declare slot_starts.simps [simp del]

definition make_slot :: "Stylist \<Rightarrow> timedelta \<Rightarrow> datetime \<Rightarrow> TimeSlot" where
  "make_slot stylist service_duration slot_start =
     \<lparr>ts_start_time = slot_start,
      ts_end_time = slot_start + service_duration,
      ts_stylist_id = st_id stylist,
      ts_stylist_name = st_full_name stylist\<rparr>"

definition block_slots ::
  "Appointment list \<Rightarrow> Stylist \<Rightarrow> timedelta \<Rightarrow> datetime \<Rightarrow> datetime \<Rightarrow> TimeSlot list" where
  \<comment> \<open>the slots one working block contributes\<close>
  "block_slots rows stylist service_duration work_end work_start =
     map (make_slot stylist service_duration)
       (filter (\<lambda>s. conflicting_appointment rows (st_id stylist) s (s + service_duration) = None)
          (slot_starts service_duration work_end work_start))"

definition block_start :: "datetime \<Rightarrow> time_slot \<Rightarrow> datetime" where
  "block_start date b = (date div DAY) * DAY + (start_hour b * 60 + start_minute b) * MINUTE"

definition block_end :: "datetime \<Rightarrow> time_slot \<Rightarrow> datetime" where
  "block_end date b = (date div DAY) * DAY + (end_hour b * 60 + end_minute b) * MINUTE"

definition block_range :: "datetime \<Rightarrow> time_slot \<Rightarrow> TimeRange" where
  \<comment> \<open>a working block placed on the day of \<open>date\<close>\<close>
  "block_range date b = \<lparr>tr_start = block_start date b, tr_end = block_end date b\<rparr>"

definition slot_range :: "TimeSlot \<Rightarrow> TimeRange" where
  "slot_range s = \<lparr>tr_start = ts_start_time s, tr_end = ts_end_time s\<rparr>"

definition appointment_range :: "Appointment \<Rightarrow> TimeRange" where
  "appointment_range a = \<lparr>tr_start = ap_start_time a, tr_end = ap_end_time a\<rparr>"

definition active :: "Appointment \<Rightarrow> bool" where
  \<comment> \<open>status in \<open>{PENDING, CONFIRMED}\<close>\<close>
  "active a = (ap_status a = PENDING \<or> ap_status a = CONFIRMED)"

definition day_blocks :: "Stylist \<Rightarrow> datetime \<Rightarrow> time_slot list" where
  \<comment> \<open>the stylist's working blocks for the weekday of \<open>date\<close>\<close>
  "day_blocks stylist date = hours_get (st_working_hours stylist) (day_of_week date)"

definition stylist_slots ::
  "Appointment list \<Rightarrow> Service \<Rightarrow> datetime \<Rightarrow> Stylist \<Rightarrow> TimeSlot list" where
  \<comment> \<open>the group of slots one stylist contributes, block after block in stored order\<close>
  "stylist_slots rows service date stylist =
     (if \<not> truthy_hours (st_working_hours stylist)
         \<or> \<not> day_in_hours (day_of_week date) (st_working_hours stylist)
      then []
      else concat (map (\<lambda>b. block_slots rows stylist
                              (timedelta_minutes (sv_duration_minutes service))
                              (block_end date b) (block_start date b))
                     (day_blocks stylist date)))"

definition valid_block :: "time_slot \<Rightarrow> bool" where
  \<comment> \<open>hours and minutes that \<open>datetime.replace\<close> accepts\<close>
  "valid_block b =
     (0 \<le> start_hour b \<and> start_hour b \<le> 23 \<and> 0 \<le> start_minute b \<and> start_minute b \<le> 59
      \<and> 0 \<le> end_hour b \<and> end_hour b \<le> 23 \<and> 0 \<le> end_minute b \<and> end_minute b \<le> 59)"

definition blocks_ascending :: "time_slot list \<Rightarrow> bool" where
  \<comment> \<open>stored in ascending order without overlap: a block ends no later than any later
      block begins\<close>
  "blocks_ascending bs =
     sorted_wrt (\<lambda>b c. end_hour b * 60 + end_minute b \<le> start_hour c * 60 + start_minute c) bs"

definition SlotConflict :: error where
  "SlotConflict = HTTPException 400 ''Time slot is not available''"

definition OutsideWorkingHours :: "string \<Rightarrow> error \<Rightarrow> bool" where
  \<comment> \<open>the two responses of the working-hours check, for the weekday \<open>day\<close>\<close>
  "OutsideWorkingHours day e =
     (e = HTTPException 400 ''Appointment time is outside of stylist's working hours''
      \<or> e = HTTPException 400 (''Stylist does not work on '' @ day))"

definition apply_status :: "Appointment \<Rightarrow> AppointmentStatusUpdate \<Rightarrow> Appointment" where
  \<comment> \<open>the row as \<open>update_appointment_status\<close> writes it back\<close>
  "apply_status appointment status_data =
     (if su_status status_data = CANCELLED
         \<and> su_cancellation_reason status_data \<noteq> None
         \<and> su_cancellation_reason status_data \<noteq> Some []
      then appointment\<lparr>ap_status := su_status status_data,
                       ap_cancellation_reason := su_cancellation_reason status_data\<rparr>
      else appointment\<lparr>ap_status := su_status status_data\<rparr>)"


definition well_formed :: "Appointment \<Rightarrow> bool" where
  \<comment> \<open>the TimeRange invariant of an appointment\<close>
  "well_formed a = (ap_start_time a < ap_end_time a)"

section \<open>Example data\<close>

definition monday :: datetime where
  \<comment> \<open>2024-01-01T00:00:00, a Monday (ordinal day 738886)\<close>
  "monday = 738885 * DAY"

definition at_time :: "int \<Rightarrow> int \<Rightarrow> datetime" where
  \<comment> \<open>that Monday at \<open>h:m\<close>\<close>
  "at_time h m = monday + (h * 60 + m) * MINUTE"

definition client1 :: User where
  "client1 = \<lparr>us_id = 7, us_role = CLIENT\<rparr>"

definition admin1 :: User where
  "admin1 = \<lparr>us_id = 1, us_role = ADMIN\<rparr>"

definition manicure :: Service where
  \<comment> \<open>Scenario C: price 50, home service fee 15; 60 minutes\<close>
  "manicure = \<lparr>sv_id = 1, sv_is_active = True, sv_duration_minutes = 60, sv_price = 50,
               sv_home_service_fee = Some 15\<rparr>"

definition zero_service :: Service where
  "zero_service = \<lparr>sv_id = 2, sv_is_active = True, sv_duration_minutes = 0, sv_price = 50,
                   sv_home_service_fee = None\<rparr>"

definition mk_stylist :: "(string \<times> time_slot list) list option \<Rightarrow> Stylist" where
  "mk_stylist wh = \<lparr>st_id = 1, st_salon_id = 1, st_full_name = ''Test Stylist'',
                    st_is_active = True, st_working_hours = wh, st_services = [1, 2]\<rparr>"

definition block :: "int \<Rightarrow> int \<Rightarrow> time_slot" where
  \<comment> \<open>the block \<open>{"start": "h1:00", "end": "h2:00"}\<close>\<close>
  "block h1 h2 = \<lparr>start_hour = h1, start_minute = 0, end_hour = h2, end_minute = 0\<rparr>"

definition mk_db :: "(string \<times> time_slot list) list option \<Rightarrow> Appointment list \<Rightarrow> db" where
  "mk_db wh rows = \<lparr>services = [manicure, zero_service], stylists = [mk_stylist wh],
                    salons = [\<lparr>sl_id = 1, sl_owner_id = 2\<rparr>], appointments = rows\<rparr>"

definition mk_request :: "int \<Rightarrow> datetime \<Rightarrow> AppointmentType \<Rightarrow> AppointmentCreate" where
  "mk_request service_id start type =
     \<lparr>ac_service_id = service_id, ac_stylist_id = 1, ac_start_time = start,
      ac_appointment_type = type, ac_address = Some ''12 Main Street'', ac_notes = None\<rparr>"

definition mk_appointment ::
  "int \<Rightarrow> datetime \<Rightarrow> datetime \<Rightarrow> AppointmentStatus \<Rightarrow> AppointmentType \<Rightarrow> real \<Rightarrow> Appointment" where
  "mk_appointment service_id start end_time status type fees =
     \<lparr>ap_id = 1, ap_client_id = 7, ap_service_id = service_id, ap_stylist_id = 1,
      ap_start_time = start, ap_end_time = end_time, ap_status = status,
      ap_appointment_type = type, ap_address = Some ''12 Main Street'',
      ap_price = 50 + fees, ap_original_price = 50, ap_discount_amount = 0,
      ap_additional_fees = fees, ap_is_paid = False, ap_notes = None,
      ap_cancellation_reason = None\<rparr>"

definition mk_slot :: "datetime \<Rightarrow> datetime \<Rightarrow> TimeSlot" where
  "mk_slot start end_time = \<lparr>ts_start_time = start, ts_end_time = end_time, ts_stylist_id = 1,
                             ts_stylist_name = ''Test Stylist''\<rparr>"

definition second_stylist :: Stylist where
  "second_stylist = \<lparr>st_id = 2, st_salon_id = 1, st_full_name = ''Second Stylist'',
                      st_is_active = True,
                      st_working_hours = Some [(''monday'', [block 11 12])],
                      st_services = [1]\<rparr>"

definition two_stylists_db :: db where
  "two_stylists_db =
     \<lparr>services = [manicure],
      stylists = [mk_stylist (Some [(''monday'', [block 9 10, block 14 15])]), second_stylist],
      salons = [\<lparr>sl_id = 1, sl_owner_id = 2\<rparr>], appointments = []\<rparr>"

definition second_slot :: "datetime \<Rightarrow> datetime \<Rightarrow> TimeSlot" where
  "second_slot start end_time = \<lparr>ts_start_time = start, ts_end_time = end_time,
                                 ts_stylist_id = 2, ts_stylist_name = ''Second Stylist''\<rparr>"

section \<open>Theorems\<close>

text \<open>
  C3: for well-formed intervals \<open>a\<close> and \<open>b\<close> (start before end), the three-condition
  disjunction of the conflict queries is equivalent to the half-open overlap test
  \<open>a.start < b.end \<and> b.start < a.end\<close>.
\<close>

theorem time_conflict_iff_overlaps:
  assumes "tr_start a < tr_end a" and "tr_start b < tr_end b"
  shows "time_conflict (tr_start a) (tr_end a) (tr_start b) (tr_end b) = overlaps a b"
  using assms unfolding time_conflict_def overlaps_def by auto

theorem time_conflict_iff_overlaps_witness:
  "tr_start \<lparr>tr_start = 600, tr_end = 660\<rparr> < tr_end \<lparr>tr_start = 600, tr_end = 660\<rparr>
   \<and> tr_start \<lparr>tr_start = 630, tr_end = 690\<rparr> < tr_end \<lparr>tr_start = 630, tr_end = 690\<rparr>
   \<and> time_conflict 600 660 630 690
   \<and> overlaps \<lparr>tr_start = 600, tr_end = 660\<rparr> \<lparr>tr_start = 630, tr_end = 690\<rparr>"
  using time_conflict_iff_overlaps
    [of "\<lparr>tr_start = 600, tr_end = 660\<rparr>" "\<lparr>tr_start = 630, tr_end = 690\<rparr>"]
  by (simp add: overlaps_def)

subsection \<open>The loops of check_availability in closed form\<close>

lemma replace_hm_Inr:
  "replace_hm t h m = Inr x \<Longrightarrow> x = (t div DAY) * DAY + (h * 60 + m) * MINUTE"
  by (auto simp: replace_hm_def split: if_splits)

lemma datetime_add_Inr: "datetime_add t td = Inr x \<Longrightarrow> x = t + td"
  by (auto simp: datetime_add_def split: if_splits)

lemma timedelta_of_minutes_Inr: "timedelta_of_minutes n = Inr td \<Longrightarrow> td = timedelta_minutes n"
  by (auto simp: timedelta_of_minutes_def split: if_splits)

lemma calculate_end_time_Inr:
  "calculate_end_time t service = Inr x \<Longrightarrow> x = t + timedelta_minutes (sv_duration_minutes service)"
  by (auto simp: calculate_end_time_def split: sum.splits
           dest: datetime_add_Inr timedelta_of_minutes_Inr)

lemma slot_loop_total: "slot_loop rows st d e s acc \<noteq> None"
proof (induction d e s arbitrary: acc rule: slot_starts.induct)
  case (1 d e s)
  show ?case
  proof (cases "datetime_add s d")
    case (Inl err)
    then show ?thesis by (subst slot_loop.simps) simp
  next
    case (Inr slot_end)
    note add = this
    show ?thesis
    proof (cases "slot_end \<le> e")
      case False
      with add show ?thesis by (subst slot_loop.simps) simp
    next
      case True
      with datetime_add_Inr [OF add] have c: "s + d \<le> e" by simp
      show ?thesis
      proof (cases "datetime_add s (timedelta_minutes 30)")
        case (Inl err)
        with add True show ?thesis by (subst slot_loop.simps) simp
      next
        case (Inr next_start)
        from datetime_add_Inr [OF this] have n: "next_start = s + timedelta_minutes 30" .
        from add True Inr "1.IH" [OF c] show ?thesis
          unfolding n by (subst slot_loop.simps) simp
      qed
    qed
  qed
qed

lemma slot_loop_Inr:
  "slot_loop rows st d e s acc = Some (Inr r) \<Longrightarrow> r = acc @ block_slots rows st d e s"
proof (induction d e s arbitrary: acc rule: slot_starts.induct)
  case (1 d e s)
  from "1.prems" obtain slot_end where add: "datetime_add s d = Inr slot_end"
    by (subst (asm) slot_loop.simps) (auto split: sum.splits)
  from datetime_add_Inr [OF add] have se: "slot_end = s + d" .
  show ?case
  proof (cases "s + d \<le> e")
    case False
    with "1.prems" add se have "r = acc"
      by (subst (asm) slot_loop.simps) simp
    moreover from False have "slot_starts d e s = []"
      by (subst slot_starts.simps) simp
    ultimately show ?thesis by (simp add: block_slots_def)
  next
    case True
    with "1.prems" add se obtain next_start where
      nx: "datetime_add s (timedelta_minutes 30) = Inr next_start"
      by (subst (asm) slot_loop.simps) (auto split: sum.splits)
    from datetime_add_Inr [OF nx] have n: "next_start = s + timedelta_minutes 30" .
    let ?acc' = "if conflicting_appointment rows (st_id st) s (s + d) = None
                 then acc @ [make_slot st d s] else acc"
    from "1.prems" add se True nx n
    have "slot_loop rows st d e (s + timedelta_minutes 30) ?acc' = Some (Inr r)"
      by (subst (asm) slot_loop.simps) (auto simp: make_slot_def split: if_splits)
    from "1.IH" [OF True this]
    have "r = ?acc' @ block_slots rows st d e (s + timedelta_minutes 30)" .
    moreover from True
    have "slot_starts d e s = s # slot_starts d e (s + timedelta_minutes 30)"
      by (subst slot_starts.simps) simp
    ultimately show ?thesis by (simp add: block_slots_def)
  qed
qed

lemma replace_hm_start:
  "replace_hm date (start_hour b) (start_minute b) = Inr x \<Longrightarrow> x = block_start date b"
  by (simp add: block_start_def replace_hm_Inr)

lemma replace_hm_end:
  "replace_hm date (end_hour b) (end_minute b) = Inr x \<Longrightarrow> x = block_end date b"
  by (simp add: block_end_def replace_hm_Inr)

lemma hours_loop_total: "hours_loop rows st sv date bs acc \<noteq> None"
proof (induction bs arbitrary: acc)
  case Nil
  then show ?case by simp
next
  case (Cons b bs)
  show ?case
    using Cons.IH
    by (auto simp: slot_loop_total split: sum.splits option.splits)
qed

lemma hours_loop_Inr:
  "hours_loop rows st sv date bs acc = Some (Inr r) \<Longrightarrow>
   r = acc @ concat (map (\<lambda>b. block_slots rows st (timedelta_minutes (sv_duration_minutes sv))
                                 (block_end date b) (block_start date b)) bs)"
proof (induction bs arbitrary: acc)
  case Nil
  then show ?case by simp
next
  case (Cons b bs)
  from Cons.prems obtain ws we where
    ws: "replace_hm date (start_hour b) (start_minute b) = Inr ws" and
    we: "replace_hm date (end_hour b) (end_minute b) = Inr we" and
    rest: "hours_loop rows st sv date bs
             (acc @ block_slots rows st (timedelta_minutes (sv_duration_minutes sv)) we ws)
           = Some (Inr r)"
    by (auto split: sum.splits option.splits
             dest!: slot_loop_Inr timedelta_of_minutes_Inr)
  from Cons.IH [OF rest] replace_hm_start [OF ws] replace_hm_end [OF we]
  show ?case by simp
qed

lemma stylists_loop_total: "stylists_loop rows sv date sts acc \<noteq> None"
proof (induction sts arbitrary: acc)
  case Nil
  then show ?case by simp
next
  case (Cons st sts)
  show ?case
    using Cons.IH hours_loop_total [of rows st sv date "day_blocks st date" acc]
    by (auto simp: day_blocks_def split: option.splits sum.splits)
qed

lemma stylists_loop_Inr:
  "stylists_loop rows sv date sts acc = Some (Inr r) \<Longrightarrow>
   r = acc @ concat (map (stylist_slots rows sv date) sts)"
proof (induction sts arbitrary: acc)
  case Nil
  then show ?case by simp
next
  case (Cons st sts)
  show ?case
  proof (cases "\<not> truthy_hours (st_working_hours st)
                 \<or> \<not> day_in_hours (day_of_week date) (st_working_hours st)")
    case True
    with Cons.prems have "stylists_loop rows sv date sts acc = Some (Inr r)" by auto
    from Cons.IH [OF this] True show ?thesis by (simp add: stylist_slots_def)
  next
    case False
    with Cons.prems obtain acc' where
      h: "hours_loop rows st sv date (day_blocks st date) acc = Some (Inr acc')" and
      rest: "stylists_loop rows sv date sts acc' = Some (Inr r)"
      by (auto simp: day_blocks_def split: option.splits sum.splits)
    from hours_loop_Inr [OF h] Cons.IH [OF rest] False
    show ?thesis by (simp add: stylist_slots_def)
  qed
qed

lemma check_availability_Inr:
  "check_availability d service_id date stylist_id = Some (Inr slots) \<Longrightarrow>
   \<exists>sv. get_service d service_id = Some sv \<and>
     slots = concat (map (stylist_slots (appointments d) sv date)
                       (query_stylists d service_id stylist_id))"
  by (auto simp: check_availability_def split: option.splits if_splits
           dest: stylists_loop_Inr)

lemma check_availability_total: "check_availability d service_id date stylist_id \<noteq> None"
  using stylists_loop_total [of "appointments d" _ date "query_stylists d service_id stylist_id" "[]"]
  by (auto simp: check_availability_def split: option.splits)

lemma slot_starts_bounds:
  "x \<in> set (slot_starts d e s) \<Longrightarrow> s \<le> x \<and> x + d \<le> e"
proof (induction d e s rule: slot_starts.induct)
  case (1 d e s)
  from "1.prems" have c: "s + d \<le> e"
    by (subst (asm) slot_starts.simps) (simp split: if_splits)
  with "1.prems" have "x = s \<or> x \<in> set (slot_starts d e (s + timedelta_minutes 30))"
    by (subst (asm) slot_starts.simps) simp
  then show ?case
  proof
    assume "x = s" with c show ?thesis by simp
  next
    assume "x \<in> set (slot_starts d e (s + timedelta_minutes 30))"
    from "1.IH" [OF c this] show ?thesis
      by (simp add: timedelta_minutes_def MINUTE_def)
  qed
qed

lemma overlaps_imp_time_conflict:
  "overlaps \<lparr>tr_start = a1, tr_end = a2\<rparr> \<lparr>tr_start = b1, tr_end = b2\<rparr>
   \<Longrightarrow> time_conflict a1 a2 b1 b2"
  by (auto simp: overlaps_def time_conflict_def)

lemma no_conflict_no_overlap:
  assumes "conflicting_appointment rows sid b1 b2 = None"
    and "a \<in> set rows" and "ap_stylist_id a = sid" and "active a"
  shows "\<not> overlaps (appointment_range a) \<lparr>tr_start = b1, tr_end = b2\<rparr>"
proof
  assume "overlaps (appointment_range a) \<lparr>tr_start = b1, tr_end = b2\<rparr>"
  then have "time_conflict (ap_start_time a) (ap_end_time a) b1 b2"
    by (simp add: appointment_range_def overlaps_imp_time_conflict)
  with assms(2-4) have "conflicting sid b1 b2 a"
    by (auto simp: conflicting_def active_def)
  with assms(1,2) show False
    by (auto simp: conflicting_appointment_def find_None_iff)
qed

lemma block_slots_props:
  assumes "s \<in> set (block_slots rows st dur e w)"
  shows "ts_stylist_id s = st_id st \<and> ts_stylist_name s = st_full_name st
         \<and> w \<le> ts_start_time s \<and> ts_end_time s \<le> e
         \<and> ts_end_time s = ts_start_time s + dur
         \<and> conflicting_appointment rows (st_id st) (ts_start_time s) (ts_end_time s) = None"
  using assms by (auto simp: block_slots_def make_slot_def dest: slot_starts_bounds)

lemma stylist_slots_props:
  assumes "s \<in> set (stylist_slots rows sv date st)"
  shows "ts_stylist_id s = st_id st \<and>
         (\<exists>b \<in> set (day_blocks st date). contains (block_range date b) (slot_range s)) \<and>
         (\<forall>a \<in> set rows. ap_stylist_id a = st_id st \<and> active a
              \<longrightarrow> \<not> overlaps (appointment_range a) (slot_range s))"
proof -
  from assms obtain b where b: "b \<in> set (day_blocks st date)" and
    s: "s \<in> set (block_slots rows st (timedelta_minutes (sv_duration_minutes sv))
                   (block_end date b) (block_start date b))"
    by (auto simp: stylist_slots_def split: if_splits)
  note p = block_slots_props [OF s]
  from p have "contains (block_range date b) (slot_range s)"
    by (simp add: contains_def block_range_def slot_range_def)
  moreover have "\<not> overlaps (appointment_range a) (slot_range s)"
    if "a \<in> set rows" "ap_stylist_id a = st_id st" "active a" for a
  proof -
    from p have "conflicting_appointment rows (st_id st) (ts_start_time s) (ts_end_time s) = None"
      by blast
    from no_conflict_no_overlap [OF this that] show ?thesis
      unfolding slot_range_def .
  qed
  ultimately show ?thesis using b p by blast
qed

subsection \<open>Evaluation on the example data\<close>

lemmas ex_defs = mk_db_def mk_stylist_def manicure_def zero_service_def block_def
  mk_request_def mk_appointment_def mk_slot_def client1_def admin1_def at_time_def monday_def
  DAY_def MINUTE_def timedelta_minutes_def

lemma day_of_week_monday0: "day_of_week monday = ''monday''"
  by (simp add: day_of_week_def monday_def DAY_def)

lemmas create_defs = create_appointment_def get_service_def get_stylist_def
  conflicting_appointment_def conflicting_def time_conflict_def check_working_hours_def
  truthy_hours_def day_in_hours_def hours_get_def replace_hm_def next_id_def day_of_week_def
  calculate_end_time_def timedelta_of_minutes_def datetime_add_def Let_def

lemmas avail_defs = check_availability_def get_service_def query_stylists_def
  truthy_hours_def day_in_hours_def hours_get_def replace_hm_def timedelta_of_minutes_def
  datetime_add_def slot_loop.simps conflicting_appointment_def conflicting_def
  time_conflict_def day_of_week_def day_blocks_def

lemma check_availability_busy:
  "check_availability
     (mk_db (Some [(''monday'', [block 9 11])])
        [mk_appointment 1 (at_time 9 0) (at_time 10 0) PENDING IN_SALON 0]) 1 monday None
   = Some (Inr [mk_slot (at_time 10 0) (at_time 11 0)])"
  by (simp add: avail_defs ex_defs)

lemma check_availability_degenerate:
  "check_availability (mk_db (Some [(''monday'', [block 10 9, block 9 9])]) []) 2 monday None
   = Some (Inr [mk_slot (at_time 9 0) (at_time 9 0)])"
  by (simp add: avail_defs ex_defs)

lemma check_availability_unsorted:
  "check_availability (mk_db (Some [(''monday'', [block 14 15, block 9 10])]) []) 1 monday None
   = Some (Inr [mk_slot (at_time 14 0) (at_time 15 0), mk_slot (at_time 9 0) (at_time 10 0)])"
  by (simp add: avail_defs ex_defs)

lemma scenario_A:
  "check_availability (mk_db (Some [(''monday'', [block 9 13, block 14 18])]) []) 1 monday None
   = Some (Inr [mk_slot (at_time 9 0) (at_time 10 0), mk_slot (at_time 9 30) (at_time 10 30),
                mk_slot (at_time 10 0) (at_time 11 0), mk_slot (at_time 10 30) (at_time 11 30),
                mk_slot (at_time 11 0) (at_time 12 0), mk_slot (at_time 11 30) (at_time 12 30),
                mk_slot (at_time 12 0) (at_time 13 0),
                mk_slot (at_time 14 0) (at_time 15 0), mk_slot (at_time 14 30) (at_time 15 30),
                mk_slot (at_time 15 0) (at_time 16 0), mk_slot (at_time 15 30) (at_time 16 30),
                mk_slot (at_time 16 0) (at_time 17 0), mk_slot (at_time 16 30) (at_time 17 30),
                mk_slot (at_time 17 0) (at_time 18 0)])"
  by (simp add: avail_defs ex_defs)

lemma scenario_C:
  "create_appointment (mk_db (Some [(''monday'', [block 9 10])]) []) client1
     (mk_request 1 (at_time 9 0) AT_HOME)
   = Inr (mk_appointment 1 (at_time 9 0) (at_time 10 0) PENDING AT_HOME 15,
          mk_db (Some [(''monday'', [block 9 10])])
            [mk_appointment 1 (at_time 9 0) (at_time 10 0) PENDING AT_HOME 15])"
  by (simp add: create_defs ex_defs)

subsection \<open>Slot generation\<close>

text \<open>
  C5: every slot that GenerateSlots returns lies within (\<open>contains\<close>) some working block of
  its stylist for the weekday of the requested date, and overlaps (half-open) no appointment
  of that stylist whose status is PENDING or CONFIRMED in the appointment rows read.
\<close>

theorem generated_slots_contained_and_free:
  assumes "check_availability d service_id date stylist_id = Some (Inr slots)"
    and "s \<in> set slots"
  shows "\<exists>stylist \<in> set (query_stylists d service_id stylist_id).
           ts_stylist_id s = st_id stylist \<and>
           (\<exists>b \<in> set (day_blocks stylist date). contains (block_range date b) (slot_range s)) \<and>
           (\<forall>a \<in> set (appointments d). ap_stylist_id a = st_id stylist \<and> active a
                \<longrightarrow> \<not> overlaps (appointment_range a) (slot_range s))"
proof -
  from check_availability_Inr [OF assms(1)] obtain sv where
    "slots = concat (map (stylist_slots (appointments d) sv date)
                       (query_stylists d service_id stylist_id))"
    by blast
  with assms(2) obtain st where st: "st \<in> set (query_stylists d service_id stylist_id)"
    and s: "s \<in> set (stylist_slots (appointments d) sv date st)"
    by auto
  from stylist_slots_props [OF s] st show ?thesis by blast
qed

theorem generated_slots_contained_and_free_witness:
  "check_availability
     (mk_db (Some [(''monday'', [block 9 11])])
        [mk_appointment 1 (at_time 9 0) (at_time 10 0) PENDING IN_SALON 0]) 1 monday None
   = Some (Inr [mk_slot (at_time 10 0) (at_time 11 0)])
   \<and> contains (block_range monday (block 9 11)) (slot_range (mk_slot (at_time 10 0) (at_time 11 0)))
   \<and> \<not> overlaps (appointment_range (mk_appointment 1 (at_time 9 0) (at_time 10 0) PENDING IN_SALON 0))
          (slot_range (mk_slot (at_time 10 0) (at_time 11 0)))"
  using generated_slots_contained_and_free [OF check_availability_busy,
      of "mk_slot (at_time 10 0) (at_time 11 0)"] check_availability_busy
  by (simp add: query_stylists_def day_blocks_def hours_get_def day_of_week_monday0 active_def
        mk_db_def mk_stylist_def mk_appointment_def mk_slot_def)

text \<open>
  C10: GenerateSlots terminates for every input, whatever the service duration (zero and
  negative included) and whatever the working blocks (end before start included): the
  result is never \<open>None\<close>, the value of a loop that does not return.
\<close>

theorem check_availability_terminates:
  "\<exists>r. check_availability d service_id date stylist_id = Some r"
  using check_availability_total [of d service_id date stylist_id] by auto

theorem check_availability_terminates_witness:
  "(\<exists>r. check_availability (mk_db (Some [(''monday'', [block 10 9, block 9 9])]) []) 2 monday None
          = Some r)
   \<and> check_availability (mk_db (Some [(''monday'', [block 10 9, block 9 9])]) []) 2 monday None
       = Some (Inr [mk_slot (at_time 9 0) (at_time 9 0)])"
  using check_availability_terminates
    [of "mk_db (Some [(''monday'', [block 10 9, block 9 9])]) []" 2 monday None]
    check_availability_degenerate
  by simp

subsection \<open>Creating an appointment\<close>

text \<open>
  C6: an appointment returned by a successful CreateAppointment has additional fees equal to
  the service's home service fee when the type is AT_HOME and the fee is set, else 0; price
  = service price + additional fees; original price = service price; discount 0; status
  PENDING; not paid; end time = start time + service duration.
\<close>

theorem created_appointment_fields:
  assumes "create_appointment d current_user appointment_data = Inr (a, d')"
  shows "\<exists>service. get_service d (ac_service_id appointment_data) = Some service \<and>
           ap_additional_fees a =
             (if ac_appointment_type appointment_data = AT_HOME \<and> sv_home_service_fee service \<noteq> None
              then the (sv_home_service_fee service) else 0) \<and>
           ap_price a = sv_price service + ap_additional_fees a \<and>
           ap_original_price a = sv_price service \<and>
           ap_discount_amount a = 0 \<and>
           ap_status a = PENDING \<and>
           \<not> ap_is_paid a \<and>
           ap_start_time a = ac_start_time appointment_data \<and>
           ap_end_time a = ap_start_time a + timedelta_minutes (sv_duration_minutes service) \<and>
           appointments d' = appointments d @ [a]"
  using assms unfolding create_appointment_def Let_def
  by (auto split: option.splits sum.splits if_splits dest!: calculate_end_time_Inr)

theorem created_appointment_fields_witness:
  "create_appointment (mk_db (Some [(''monday'', [block 9 10])]) []) client1
     (mk_request 1 (at_time 9 0) AT_HOME)
   = Inr (mk_appointment 1 (at_time 9 0) (at_time 10 0) PENDING AT_HOME 15,
          mk_db (Some [(''monday'', [block 9 10])])
            [mk_appointment 1 (at_time 9 0) (at_time 10 0) PENDING AT_HOME 15])
   \<and> ap_price (mk_appointment 1 (at_time 9 0) (at_time 10 0) PENDING AT_HOME 15) = 65
   \<and> ap_additional_fees (mk_appointment 1 (at_time 9 0) (at_time 10 0) PENDING AT_HOME 15) = 15
   \<and> ap_original_price (mk_appointment 1 (at_time 9 0) (at_time 10 0) PENDING AT_HOME 15) = 50"
  using created_appointment_fields [OF scenario_C] scenario_C
  by (simp add: mk_appointment_def)

lemma create_second:
  "create_appointment
     (mk_db (Some [(''monday'', [block 9 11])])
        [mk_appointment 1 (at_time 9 0) (at_time 10 0) PENDING IN_SALON 0]) client1
     (mk_request 1 (at_time 10 0) IN_SALON)
   = Inr ((mk_appointment 1 (at_time 10 0) (at_time 11 0) PENDING IN_SALON 0)\<lparr>ap_id := 2\<rparr>,
          mk_db (Some [(''monday'', [block 9 11])])
            [mk_appointment 1 (at_time 9 0) (at_time 10 0) PENDING IN_SALON 0,
             (mk_appointment 1 (at_time 10 0) (at_time 11 0) PENDING IN_SALON 0)\<lparr>ap_id := 2\<rparr>])"
  by (simp add: create_defs ex_defs)



lemma scenario_B:
  "create_appointment
     (mk_db (Some [(''monday'', [block 9 13])])
        [mk_appointment 1 (at_time 10 0) (at_time 11 0) PENDING IN_SALON 0]) client1
     (mk_request 1 (at_time 10 30) IN_SALON)
   = Inl SlotConflict"
  by (simp add: create_defs ex_defs SlotConflict_def)





lemma is_within_hours_True:
  "is_within_hours s e bs = Inr True \<Longrightarrow>
   \<exists>b \<in> set bs. contains (block_range s b) \<lparr>tr_start = s, tr_end = e\<rparr>"
proof (induction bs)
  case Nil
  then show ?case by simp
next
  case (Cons b bs)
  show ?case
  proof (cases "contains (block_range s b) \<lparr>tr_start = s, tr_end = e\<rparr>")
    case True
    then show ?thesis by simp
  next
    case False
    with Cons.prems have "is_within_hours s e bs = Inr True"
      by (auto simp: contains_def block_range_def split: sum.splits if_splits
               dest!: replace_hm_start replace_hm_end)
    from Cons.IH [OF this] show ?thesis by auto
  qed
qed

lemma is_within_hours_valid:
  "\<forall>b \<in> set bs. valid_block b \<Longrightarrow> \<exists>r. is_within_hours s e bs = Inr r"
  by (induction bs) (auto simp: valid_block_def replace_hm_def)


lemma create_outside_monday_block:
  "create_appointment (mk_db (Some [(''monday'', [block 9 10])]) []) client1
     (mk_request 1 (at_time 3 0) IN_SALON)
   = Inl (HTTPException 400 ''Appointment time is outside of stylist's working hours'')"
  by (simp add: create_defs ex_defs)

lemma create_past_last_day:
  "create_appointment (mk_db (Some [(''friday'', [block 9 10])]) []) client1
     (mk_request 1 (3652058 * DAY + (23 * 60 + 30) * MINUTE) IN_SALON)
   = Inl OverflowError"
  by (simp add: create_defs ex_defs)

text \<open>
  C4, as the claim states it, fails: a stylist with no working hours recorded (\<open>NULL\<close>, or an
  empty mapping) has no working block on any day, yet a request for Monday 03:00 is accepted
  and the appointment is stored. The check is guarded by \<open>if stylist.working_hours:\<close>.
\<close>

theorem create_without_working_hours_counterexample:
  "st_working_hours (mk_stylist None) = None
   \<and> day_blocks (mk_stylist None) (at_time 3 0) = []
   \<and> create_appointment (mk_db None []) client1 (mk_request 1 (at_time 3 0) IN_SALON)
     = Inr (mk_appointment 1 (at_time 3 0) (at_time 4 0) PENDING IN_SALON 0,
            mk_db None [mk_appointment 1 (at_time 3 0) (at_time 4 0) PENDING IN_SALON 0])
   \<and> day_blocks (mk_stylist (Some [])) (at_time 3 0) = []
   \<and> create_appointment (mk_db (Some []) []) client1 (mk_request 1 (at_time 3 0) IN_SALON)
     = Inr (mk_appointment 1 (at_time 3 0) (at_time 4 0) PENDING IN_SALON 0,
            mk_db (Some []) [mk_appointment 1 (at_time 3 0) (at_time 4 0) PENDING IN_SALON 0])"
  by (simp add: create_defs ex_defs day_blocks_def)

text \<open>
  C4, amended: for a request whose service and stylist resolve and whose stylist offers the
  service: (1) if the stylist has working hours recorded (a non-empty mapping) and the
  candidate interval \<open>[start, start + duration)\<close> is contained in none of the stylist's
  working blocks for the weekday of the start time, the request is rejected and no
  appointment is created; the rejection is OutsideWorkingHours when the end time is a
  representable datetime (up to year 9999; the code raises OverflowError otherwise), no
  conflicting appointment exists (the conflict check runs first) and every block of that day
  has hours and minutes in range. (2) If the stylist has no working hours recorded (\<open>NULL\<close>
  or an empty mapping), the working-hours check is skipped: the request succeeds whenever
  the end time is representable and no conflicting appointment exists, wherever the
  interval lies.
\<close>

theorem outside_working_hours_rejected:
  assumes sv: "get_service d (ac_service_id appointment_data) = Some service"
    and st: "get_stylist d (ac_stylist_id appointment_data) = Some stylist"
    and offers: "sv_id service \<in> set (st_services stylist)"
  shows "(truthy_hours (st_working_hours stylist)
          \<and> \<not> (\<exists>b \<in> set (day_blocks stylist (ac_start_time appointment_data)).
                 contains (block_range (ac_start_time appointment_data) b)
                   \<lparr>tr_start = ac_start_time appointment_data,
                    tr_end = ac_start_time appointment_data
                               + timedelta_minutes (sv_duration_minutes service)\<rparr>)
          \<longrightarrow> (\<exists>e. create_appointment d current_user appointment_data = Inl e)
              \<and> (calculate_end_time (ac_start_time appointment_data) service = Inr end_time
                  \<and> conflicting_appointment (appointments d) (st_id stylist)
                       (ac_start_time appointment_data) end_time = None
                  \<and> (\<forall>b \<in> set (day_blocks stylist (ac_start_time appointment_data)).
                        valid_block b)
                  \<longrightarrow> (\<exists>e. create_appointment d current_user appointment_data = Inl e
                           \<and> OutsideWorkingHours
                                (day_of_week (ac_start_time appointment_data)) e)))
         \<and> (\<not> truthy_hours (st_working_hours stylist)
             \<and> calculate_end_time (ac_start_time appointment_data) service = Inr end_time
             \<and> conflicting_appointment (appointments d) (st_id stylist)
                  (ac_start_time appointment_data) end_time = None
             \<longrightarrow> (\<exists>a d'. create_appointment d current_user appointment_data = Inr (a, d')
                          \<and> appointments d' = appointments d @ [a]))"
proof -
  let ?s = "ac_start_time appointment_data"
  let ?e = "?s + timedelta_minutes (sv_duration_minutes service)"
  have rejected: "\<exists>e. create_appointment d current_user appointment_data = Inl e"
    if hours: "truthy_hours (st_working_hours stylist)"
      and nt: "is_within_hours ?s ?e (day_blocks stylist ?s) \<noteq> Inr True"
  proof (cases "calculate_end_time ?s service")
    case (Inl err)
    with sv st offers show ?thesis
      by (simp add: create_appointment_def)
  next
    case (Inr t)
    from calculate_end_time_Inr [OF Inr] have t: "t = ?e" .
    from nt hours have "\<exists>e. check_working_hours stylist ?s ?e = Inl e"
      by (auto simp: check_working_hours_def day_blocks_def split: sum.splits)
    with sv st offers Inr t show ?thesis
      by (auto simp: create_appointment_def Let_def split: option.splits sum.splits)
  qed
  have outside: "\<exists>e. create_appointment d current_user appointment_data = Inl e
                     \<and> OutsideWorkingHours (day_of_week ?s) e"
    if hours: "truthy_hours (st_working_hours stylist)"
      and nt: "is_within_hours ?s ?e (day_blocks stylist ?s) \<noteq> Inr True"
      and et: "calculate_end_time ?s service = Inr end_time"
      and nc: "conflicting_appointment (appointments d) (st_id stylist) ?s end_time = None"
      and v: "\<forall>b \<in> set (day_blocks stylist ?s). valid_block b"
  proof -
    from calculate_end_time_Inr [OF et] have t: "end_time = ?e" .
    from is_within_hours_valid [OF v, of ?s ?e] nt
    have "is_within_hours ?s ?e (day_blocks stylist ?s) = Inr False" by auto
    with hours have "\<exists>e. check_working_hours stylist ?s ?e = Inl e
                         \<and> OutsideWorkingHours (day_of_week ?s) e"
      by (auto simp: check_working_hours_def day_blocks_def OutsideWorkingHours_def)
    with sv st offers et nc t show ?thesis
      by (auto simp: create_appointment_def Let_def)
  qed
  have skipped: "\<exists>a d'. create_appointment d current_user appointment_data = Inr (a, d')
                        \<and> appointments d' = appointments d @ [a]"
    if nh: "\<not> truthy_hours (st_working_hours stylist)"
      and et: "calculate_end_time ?s service = Inr end_time"
      and nc: "conflicting_appointment (appointments d) (st_id stylist) ?s end_time = None"
  proof -
    from nh have "check_working_hours stylist ?s end_time = Inr ()"
      by (simp add: check_working_hours_def)
    with sv st offers et nc show ?thesis
      by (simp add: create_appointment_def Let_def)
  qed
  have nt: "is_within_hours ?s ?e (day_blocks stylist ?s) \<noteq> Inr True"
    if "\<not> (\<exists>b \<in> set (day_blocks stylist ?s).
               contains (block_range ?s b) \<lparr>tr_start = ?s, tr_end = ?e\<rparr>)"
    using that is_within_hours_True [of ?s ?e "day_blocks stylist ?s"] by blast
  from rejected outside skipped nt show ?thesis by blast
qed

theorem outside_working_hours_rejected_witness:
  "create_appointment (mk_db (Some [(''monday'', [block 9 10])]) []) client1
     (mk_request 1 (at_time 3 0) IN_SALON)
   = Inl (HTTPException 400 ''Appointment time is outside of stylist's working hours'')
   \<and> OutsideWorkingHours ''monday''
        (HTTPException 400 ''Appointment time is outside of stylist's working hours'')
   \<and> create_appointment (mk_db (Some []) []) client1 (mk_request 1 (at_time 3 0) IN_SALON)
     = Inr (mk_appointment 1 (at_time 3 0) (at_time 4 0) PENDING IN_SALON 0,
            mk_db (Some []) [mk_appointment 1 (at_time 3 0) (at_time 4 0) PENDING IN_SALON 0])"
proof -
  let ?H = "Some [(''monday'', [block 9 10])]"
  let ?r = "mk_request 1 (at_time 3 0) IN_SALON"
  have sv: "get_service (mk_db h []) (ac_service_id ?r) = Some manicure" for h
    by (simp add: get_service_def ex_defs)
  have st: "get_stylist (mk_db h []) (ac_stylist_id ?r) = Some (mk_stylist h)" for h
    by (simp add: get_stylist_def ex_defs)
  have offers: "sv_id manicure \<in> set (st_services (mk_stylist h))" for h
    by (simp add: ex_defs)
  have e: "calculate_end_time (ac_start_time ?r) manicure = Inr (at_time 4 0)"
    by (simp add: calculate_end_time_def timedelta_of_minutes_def datetime_add_def ex_defs)
  have nc: "conflicting_appointment (appointments (mk_db h [])) (st_id (mk_stylist h))
              (ac_start_time ?r) (at_time 4 0) = None" for h
    by (simp add: conflicting_appointment_def mk_db_def)
  have hours: "truthy_hours (st_working_hours (mk_stylist ?H))"
    by (simp add: truthy_hours_def ex_defs)
  have blocks: "day_blocks (mk_stylist ?H) (ac_start_time ?r) = [block 9 10]"
    by (simp add: day_blocks_def hours_get_def day_of_week_def ex_defs)
  have outside: "\<not> (\<exists>b \<in> set (day_blocks (mk_stylist ?H) (ac_start_time ?r)).
                     contains (block_range (ac_start_time ?r) b)
                       \<lparr>tr_start = ac_start_time ?r,
                        tr_end = ac_start_time ?r
                                   + timedelta_minutes (sv_duration_minutes manicure)\<rparr>)"
    unfolding blocks
    by (simp add: contains_def block_range_def block_start_def block_end_def ex_defs)
  have v: "\<forall>b \<in> set (day_blocks (mk_stylist ?H) (ac_start_time ?r)). valid_block b"
    unfolding blocks by (simp add: valid_block_def block_def)
  from outside_working_hours_rejected [OF sv st offers, of ?H client1 "at_time 4 0"]
    hours outside e nc [of ?H] v
  have "\<exists>err. create_appointment (mk_db ?H []) client1 ?r = Inl err
              \<and> OutsideWorkingHours (day_of_week (ac_start_time ?r)) err"
    by blast
  then have 1: "OutsideWorkingHours ''monday''
        (HTTPException 400 ''Appointment time is outside of stylist's working hours'')"
    using create_outside_monday_block
    by (simp add: day_of_week_def ex_defs)
  have nh: "\<not> truthy_hours (st_working_hours (mk_stylist (Some [])))"
    by (simp add: truthy_hours_def ex_defs)
  from outside_working_hours_rejected [OF sv st offers, of "Some []" client1 "at_time 4 0"]
    nh e nc [of "Some []"]
  obtain a d' where
    "create_appointment (mk_db (Some []) []) client1 ?r = Inr (a, d')"
    by blast
  moreover have "create_appointment (mk_db (Some []) []) client1 ?r
     = Inr (mk_appointment 1 (at_time 3 0) (at_time 4 0) PENDING IN_SALON 0,
            mk_db (Some []) [mk_appointment 1 (at_time 3 0) (at_time 4 0) PENDING IN_SALON 0])"
    by (simp add: create_defs ex_defs)
  ultimately show ?thesis using 1 create_outside_monday_block by simp
qed

text \<open>
  C9, as the claim states it, fails: with a service whose duration is 0, CreateAppointment
  does not fail; it stores an appointment whose end time equals its start time.
\<close>

theorem zero_duration_created_counterexample:
  "sv_duration_minutes zero_service \<le> 0
   \<and> create_appointment (mk_db (Some [(''monday'', [block 9 10])]) []) client1
       (mk_request 2 (at_time 9 0) IN_SALON)
     = Inr (mk_appointment 2 (at_time 9 0) (at_time 9 0) PENDING IN_SALON 0,
            mk_db (Some [(''monday'', [block 9 10])])
              [mk_appointment 2 (at_time 9 0) (at_time 9 0) PENDING IN_SALON 0])
   \<and> \<not> well_formed (mk_appointment 2 (at_time 9 0) (at_time 9 0) PENDING IN_SALON 0)"
  by (simp add: create_defs ex_defs well_formed_def)


text \<open>
  C9, amended: CreateAppointment does not check the duration itself (the service schemas
  require \<open>duration_minutes > 0\<close> when a service is created or updated); when the resolved
  service has a positive duration, the appointment it creates satisfies
  \<open>start_time < end_time\<close>, the row is appended to the stored rows and nothing else changes,
  so rows that all satisfied the invariant before still do afterwards.
\<close>

theorem positive_duration_well_formed:
  assumes "create_appointment d current_user appointment_data = Inr (a, d')"
    and "get_service d (ac_service_id appointment_data) = Some service"
    and "0 < sv_duration_minutes service"
  shows "well_formed a \<and> appointments d' = appointments d @ [a] \<and>
         ((\<forall>x \<in> set (appointments d). well_formed x)
            \<longrightarrow> (\<forall>x \<in> set (appointments d'). well_formed x))"
  using assms unfolding create_appointment_def Let_def
  by (auto simp: well_formed_def timedelta_minutes_def MINUTE_def
           split: option.splits sum.splits if_splits dest!: calculate_end_time_Inr)

theorem positive_duration_well_formed_witness:
  "0 < sv_duration_minutes manicure
   \<and> well_formed ((mk_appointment 1 (at_time 10 0) (at_time 11 0) PENDING IN_SALON 0)\<lparr>ap_id := 2\<rparr>)
   \<and> well_formed (mk_appointment 1 (at_time 9 0) (at_time 10 0) PENDING IN_SALON 0)"
proof -
  have sv: "get_service
              (mk_db (Some [(''monday'', [block 9 11])])
                 [mk_appointment 1 (at_time 9 0) (at_time 10 0) PENDING IN_SALON 0])
              (ac_service_id (mk_request 1 (at_time 10 0) IN_SALON)) = Some manicure"
    by (simp add: get_service_def ex_defs)
  have pos: "0 < sv_duration_minutes manicure"
    by (simp add: manicure_def)
  have old: "well_formed (mk_appointment 1 (at_time 9 0) (at_time 10 0) PENDING IN_SALON 0)"
    by (simp add: well_formed_def ex_defs)
  from positive_duration_well_formed [OF create_second sv pos] pos old
  show ?thesis by (simp add: mk_db_def)
qed

subsection \<open>Updating the status\<close>

lemmas update_defs = update_appointment_status_def get_appointment_row_def
  status_authorization_def salon_owner_check_def put_appointment_status_def
  parse_AppointmentStatusUpdate_def validate_cancellation_reason_def Let_def

lemma find_store_row:
  "List.find (\<lambda>r. ap_id r = i) rows = Some a \<Longrightarrow> ap_id a' = i \<Longrightarrow>
   List.find (\<lambda>r. ap_id r = i) (store_row a' rows) = Some a'"
  by (induction rows) (auto split: if_splits)

lemma find_ap_id: "List.find (\<lambda>r. ap_id r = i) rows = Some a \<Longrightarrow> ap_id a = i"
  by (induction rows) (auto split: if_splits)

lemma status_authorization_ignores_status:
  "status_authorization d current_user (appointment\<lparr>ap_status := s\<rparr>) status_data
   = status_authorization d current_user appointment status_data"
  by (cases "us_role current_user") (simp_all add: status_authorization_def salon_owner_check_def)

lemma update_authorized:
  assumes "get_appointment_row d appointment_id = Some appointment"
    and "status_authorization d current_user appointment status_data = None"
  shows "update_appointment_status d current_user appointment_id status_data
         = Inr (apply_status appointment status_data,
                d\<lparr>appointments := store_row (apply_status appointment status_data)
                                     (appointments d)\<rparr>)"
  using assms by (simp add: update_appointment_status_def Let_def apply_status_def)

lemma apply_status_fields:
  "ap_id (apply_status a sd) = ap_id a" "ap_status (apply_status a sd) = su_status sd"
  by (simp_all add: apply_status_def)

text \<open>
  C2, as the claim states it, fails (Scenario D): the client's request to cancel their own
  COMPLETED appointment does not fail; the stored status becomes CANCELLED.
\<close>

theorem completed_to_cancelled_counterexample:
  "ap_status (mk_appointment 1 (at_time 9 0) (at_time 10 0) COMPLETED IN_SALON 0) = COMPLETED
   \<and> update_appointment_status
       (mk_db None [mk_appointment 1 (at_time 9 0) (at_time 10 0) COMPLETED IN_SALON 0])
       client1 1 \<lparr>su_status = CANCELLED, su_cancellation_reason = Some ''changed plans''\<rparr>
     = Inr ((mk_appointment 1 (at_time 9 0) (at_time 10 0) CANCELLED IN_SALON 0)
              \<lparr>ap_cancellation_reason := Some ''changed plans''\<rparr>,
            mk_db None [(mk_appointment 1 (at_time 9 0) (at_time 10 0) CANCELLED IN_SALON 0)
              \<lparr>ap_cancellation_reason := Some ''changed plans''\<rparr>])"
  by (simp add: update_defs ex_defs)

text \<open>
  C2, amended: UpdateStatus has no state machine. For every existing appointment and every
  requested status, once the role checks pass the requested status is stored, whatever the
  current status is (terminal or not); the role checks themselves do not read the current
  status, and no InvalidTransition failure exists.
\<close>

theorem update_status_applies_requested:
  assumes "get_appointment_row d appointment_id = Some appointment"
    and "status_authorization d current_user appointment status_data = None"
  shows "(\<exists>a' d'. update_appointment_status d current_user appointment_id status_data
                    = Inr (a', d')
                  \<and> ap_status a' = su_status status_data
                  \<and> get_appointment_row d' appointment_id = Some a')
         \<and> status_authorization d current_user (appointment\<lparr>ap_status := s\<rparr>) status_data
             = status_authorization d current_user appointment status_data"
proof -
  let ?a' = "apply_status appointment status_data"
  let ?d' = "d\<lparr>appointments := store_row ?a' (appointments d)\<rparr>"
  from assms(1) have f: "List.find (\<lambda>r. ap_id r = appointment_id) (appointments d)
                         = Some appointment"
    by (simp add: get_appointment_row_def)
  from find_ap_id [OF f] have i: "ap_id ?a' = appointment_id"
    by (simp add: apply_status_fields)
  from find_store_row [OF f i] have "get_appointment_row ?d' appointment_id = Some ?a'"
    by (simp add: get_appointment_row_def)
  with update_authorized [OF assms] apply_status_fields(2) [of appointment status_data]
  have "\<exists>a' d'. update_appointment_status d current_user appointment_id status_data
                    = Inr (a', d')
                  \<and> ap_status a' = su_status status_data
                  \<and> get_appointment_row d' appointment_id = Some a'"
    by (intro exI [of _ ?a'] exI [of _ ?d']) simp
  then show ?thesis
    by (simp add: status_authorization_ignores_status)
qed

theorem update_status_applies_requested_witness:
  "update_appointment_status
     (mk_db None [mk_appointment 1 (at_time 9 0) (at_time 10 0) COMPLETED IN_SALON 0])
     admin1 1 \<lparr>su_status = PENDING, su_cancellation_reason = None\<rparr>
   = Inr (mk_appointment 1 (at_time 9 0) (at_time 10 0) PENDING IN_SALON 0,
          mk_db None [mk_appointment 1 (at_time 9 0) (at_time 10 0) PENDING IN_SALON 0])"
proof -
  let ?a = "mk_appointment 1 (at_time 9 0) (at_time 10 0) COMPLETED IN_SALON 0"
  let ?sd = "\<lparr>su_status = PENDING, su_cancellation_reason = None\<rparr>"
  have row: "get_appointment_row (mk_db None [?a]) 1 = Some ?a"
    by (simp add: get_appointment_row_def ex_defs)
  have auth: "status_authorization (mk_db None [?a]) admin1 ?a ?sd = None"
    by (simp add: status_authorization_def admin1_def)
  from update_status_applies_requested [OF row auth]
  obtain a' d' where
    r: "update_appointment_status (mk_db None [?a]) admin1 1 ?sd = Inr (a', d')"
    and "ap_status a' = su_status ?sd"
    by blast
  moreover have "update_appointment_status (mk_db None [?a]) admin1 1 ?sd
     = Inr (mk_appointment 1 (at_time 9 0) (at_time 10 0) PENDING IN_SALON 0,
            mk_db None [mk_appointment 1 (at_time 9 0) (at_time 10 0) PENDING IN_SALON 0])"
    by (simp add: update_defs ex_defs)
  ultimately show ?thesis by simp
qed

text \<open>
  C7, evaluated at a request body \<open>{"status": "cancelled"}\<close> that leaves
  \<open>cancellation_reason\<close> out: the validator is not called, the endpoint does not fail, and the
  PENDING appointment becomes CANCELLED with no cancellation reason stored.
\<close>

theorem cancel_without_reason_applied:
  "put_appointment_status
     (mk_db None [mk_appointment 1 (at_time 9 0) (at_time 10 0) PENDING IN_SALON 0])
     client1 1 CANCELLED Missing
   = Inr (mk_appointment 1 (at_time 9 0) (at_time 10 0) CANCELLED IN_SALON 0,
          mk_db None [mk_appointment 1 (at_time 9 0) (at_time 10 0) CANCELLED IN_SALON 0])
   \<and> ap_cancellation_reason (mk_appointment 1 (at_time 9 0) (at_time 10 0) CANCELLED IN_SALON 0)
       = None"
  by (simp add: update_defs ex_defs)

text \<open>
  The rest of C7 holds: a \<open>cancellation_reason\<close> given as null or as the empty string is
  rejected by the schema, and a status other than CANCELLED leaves the stored reason as it
  was.
\<close>

lemma cancel_with_empty_reason_rejected:
  "v = None \<or> v = Some [] \<Longrightarrow>
   put_appointment_status d current_user appointment_id CANCELLED (Given v)
   = Inl (RequestValidationError
            ''Cancellation reason is required when cancelling an appointment'')"
  by (auto simp: put_appointment_status_def parse_AppointmentStatusUpdate_def
        validate_cancellation_reason_def)

lemma other_status_keeps_reason:
  "update_appointment_status d current_user appointment_id status_data = Inr (a', d') \<Longrightarrow>
   su_status status_data \<noteq> CANCELLED \<Longrightarrow>
   \<exists>a. get_appointment_row d appointment_id = Some a
       \<and> ap_cancellation_reason a' = ap_cancellation_reason a"
  by (auto simp: update_appointment_status_def Let_def split: option.splits)

subsection \<open>Order of the generated slots\<close>

lemma slot_starts_sorted: "sorted (slot_starts d e s)"
proof (induction d e s rule: slot_starts.induct)
  case (1 d e s)
  show ?case
  proof (cases "s + d \<le> e")
    case True
    have "s \<le> x" if "x \<in> set (slot_starts d e (s + timedelta_minutes 30))" for x
      using slot_starts_bounds [OF that] by (simp add: timedelta_minutes_def MINUTE_def)
    with True "1.IH" show ?thesis
      by (subst slot_starts.simps) simp
  next
    case False
    then show ?thesis by (subst slot_starts.simps) simp
  qed
qed

lemma block_slots_starts:
  "map ts_start_time (block_slots rows st dur e w)
   = filter (\<lambda>s. conflicting_appointment rows (st_id st) s (s + dur) = None)
       (slot_starts dur e w)"
  by (simp add: block_slots_def make_slot_def comp_def)

lemma block_slots_sorted: "sorted (map ts_start_time (block_slots rows st dur e w))"
  unfolding block_slots_starts by (rule sorted_wrt_filter) (rule slot_starts_sorted)

lemma blocks_ascending_bounds:
  assumes "end_hour b * 60 + end_minute b \<le> start_hour c * 60 + start_minute c"
  shows "block_end date b \<le> block_start date c"
  using assms by (simp add: block_end_def block_start_def MINUTE_def)

lemma blocks_concat_sorted:
  assumes "0 \<le> dur" and "blocks_ascending bs"
  shows "sorted (map ts_start_time
           (concat (map (\<lambda>b. block_slots rows st dur (block_end date b) (block_start date b)) bs)))"
  using assms(2)
proof (induction bs)
  case Nil
  then show ?case by simp
next
  case (Cons b bs)
  from Cons.prems have asc: "blocks_ascending bs" and
    later: "\<forall>c \<in> set bs. end_hour b * 60 + end_minute b \<le> start_hour c * 60 + start_minute c"
    by (simp_all add: blocks_ascending_def)
  have cross: "ts_start_time x \<le> ts_start_time y"
    if x: "x \<in> set (block_slots rows st dur (block_end date b) (block_start date b))"
      and c: "c \<in> set bs"
      and y: "y \<in> set (block_slots rows st dur (block_end date c) (block_start date c))"
    for x y c
  proof -
    from block_slots_props [OF x] assms(1) have "ts_start_time x \<le> block_end date b" by simp
    also from later c have "\<dots> \<le> block_start date c" by (simp add: blocks_ascending_bounds)
    also from block_slots_props [OF y] have "\<dots> \<le> ts_start_time y" by simp
    finally show ?thesis .
  qed
  from Cons.IH [OF asc] block_slots_sorted [of rows st dur "block_end date b" "block_start date b"]
    cross
  show ?case by (auto simp: sorted_append)
qed

lemma stylist_slots_sorted:
  assumes "0 \<le> sv_duration_minutes sv" and "blocks_ascending (day_blocks st date)"
  shows "sorted (map ts_start_time (stylist_slots rows sv date st))"
proof -
  from assms(1) have "0 \<le> timedelta_minutes (sv_duration_minutes sv)"
    by (simp add: timedelta_minutes_def MINUTE_def)
  from blocks_concat_sorted [OF this assms(2)] show ?thesis
    by (simp add: stylist_slots_def)
qed

lemma stylist_slots_id: "s \<in> set (stylist_slots rows sv date st) \<Longrightarrow> ts_stylist_id s = st_id st"
  using stylist_slots_props by blast

lemma slot_starts_strict: "sorted_wrt (<) (slot_starts d e s)"
proof (induction d e s rule: slot_starts.induct)
  case (1 d e s)
  show ?case
  proof (cases "s + d \<le> e")
    case True
    have "s < x" if "x \<in> set (slot_starts d e (s + timedelta_minutes 30))" for x
      using slot_starts_bounds [OF that] by (simp add: timedelta_minutes_def MINUTE_def)
    with True "1.IH" show ?thesis
      by (subst slot_starts.simps) simp
  next
    case False
    then show ?thesis by (subst slot_starts.simps) simp
  qed
qed

lemma block_slots_strict: "sorted_wrt (<) (map ts_start_time (block_slots rows st dur e w))"
  unfolding block_slots_starts by (rule sorted_wrt_filter) (rule slot_starts_strict)

lemma block_slots_contained:
  assumes "s \<in> set (block_slots rows st dur (block_end date b) (block_start date b))"
  shows "contains (block_range date b) (slot_range s)"
  using block_slots_props [OF assms]
  by (simp add: contains_def block_range_def slot_range_def)

lemma skipped_no_blocks:
  "\<not> truthy_hours (st_working_hours st) \<or> \<not> day_in_hours (day_of_week date) (st_working_hours st)
   \<Longrightarrow> day_blocks st date = []"
  by (auto simp: truthy_hours_def day_in_hours_def day_blocks_def hours_get_def
           split: option.splits)

lemma stylist_slots_concat:
  "stylist_slots rows sv date st
   = concat (map (\<lambda>b. block_slots rows st (timedelta_minutes (sv_duration_minutes sv))
                         (block_end date b) (block_start date b))
               (day_blocks st date))"
  using skipped_no_blocks [of st date] by (auto simp: stylist_slots_def)

lemma stylist_slots_parts:
  "\<exists>parts. stylist_slots rows sv date st = concat parts
     \<and> list_all2 (\<lambda>b part. sorted_wrt (<) (map ts_start_time part)
                           \<and> (\<forall>s \<in> set part. contains (block_range date b) (slot_range s)))
         (day_blocks st date) parts"
proof -
  let ?parts = "map (\<lambda>b. block_slots rows st (timedelta_minutes (sv_duration_minutes sv))
                         (block_end date b) (block_start date b))
                  (day_blocks st date)"
  have "list_all2 (\<lambda>b part. sorted_wrt (<) (map ts_start_time part)
                           \<and> (\<forall>s \<in> set part. contains (block_range date b) (slot_range s)))
         (day_blocks st date) ?parts"
    by (auto simp: list_all2_map2 list_all2_same block_slots_strict block_slots_contained)
  with stylist_slots_concat [of rows sv date st] show ?thesis by blast
qed

text \<open>
  C8, as the claim states it, fails: with the Monday blocks stored as 14:00-15:00 then
  09:00-10:00, the one stylist's slots come out as 14:00 then 09:00. The blocks are read in
  stored order and never sorted.
\<close>

theorem unsorted_blocks_counterexample:
  "check_availability (mk_db (Some [(''monday'', [block 14 15, block 9 10])]) []) 1 monday None
   = Some (Inr [mk_slot (at_time 14 0) (at_time 15 0), mk_slot (at_time 9 0) (at_time 10 0)])
   \<and> \<not> sorted (map ts_start_time
                  [mk_slot (at_time 14 0) (at_time 15 0), mk_slot (at_time 9 0) (at_time 10 0)])"
  using check_availability_unsorted by (simp add: ex_defs)

lemma check_availability_two_stylists:
  "check_availability two_stylists_db 1 monday None
   = Some (Inr [mk_slot (at_time 9 0) (at_time 10 0), mk_slot (at_time 14 0) (at_time 15 0),
                second_slot (at_time 11 0) (at_time 12 0)])"
  by (simp add: avail_defs ex_defs two_stylists_db_def second_stylist_def second_slot_def)

text \<open>
  C8, amended: the output of GenerateSlots is the concatenation of one group per stylist, in
  the order the stylist query returned them, each group holding that stylist's slots only.
  A group is the concatenation of one part per working block of the day, in the stored
  order of the blocks; each part lies within its block and is in strictly ascending start
  time. A group as a whole is in ascending start time when the service duration is not
  negative and the day's blocks are stored in ascending order without overlap (each block
  ends no later than any later block begins).
\<close>

theorem slots_grouped_and_ascending:
  assumes "check_availability d service_id date stylist_id = Some (Inr slots)"
  shows "\<exists>service groups.
           get_service d service_id = Some service \<and> slots = concat groups \<and>
           list_all2
             (\<lambda>stylist group.
                (\<forall>s \<in> set group. ts_stylist_id s = st_id stylist)
                \<and> (\<exists>parts. group = concat parts
                      \<and> list_all2
                          (\<lambda>b part. sorted_wrt (<) (map ts_start_time part)
                                     \<and> (\<forall>s \<in> set part.
                                           contains (block_range date b) (slot_range s)))
                          (day_blocks stylist date) parts)
                \<and> (0 \<le> sv_duration_minutes service
                      \<and> blocks_ascending (day_blocks stylist date)
                    \<longrightarrow> sorted (map ts_start_time group)))
             (query_stylists d service_id stylist_id) groups"
proof -
  from check_availability_Inr [OF assms] obtain service where
    sv: "get_service d service_id = Some service" and
    slots: "slots = concat (map (stylist_slots (appointments d) service date)
                             (query_stylists d service_id stylist_id))"
    by blast
  let ?groups = "map (stylist_slots (appointments d) service date)
                   (query_stylists d service_id stylist_id)"
  have "list_all2
          (\<lambda>stylist group.
             (\<forall>s \<in> set group. ts_stylist_id s = st_id stylist)
             \<and> (\<exists>parts. group = concat parts
                   \<and> list_all2
                       (\<lambda>b part. sorted_wrt (<) (map ts_start_time part)
                                  \<and> (\<forall>s \<in> set part.
                                        contains (block_range date b) (slot_range s)))
                       (day_blocks stylist date) parts)
             \<and> (0 \<le> sv_duration_minutes service
                   \<and> blocks_ascending (day_blocks stylist date)
                 \<longrightarrow> sorted (map ts_start_time group)))
          (query_stylists d service_id stylist_id) ?groups"
    unfolding list_all2_map2 list_all2_same
    using stylist_slots_id stylist_slots_parts stylist_slots_sorted by blast
  with sv slots show ?thesis by blast
qed

theorem slots_grouped_and_ascending_witness:
  "check_availability two_stylists_db 1 monday None
   = Some (Inr (concat [[mk_slot (at_time 9 0) (at_time 10 0),
                         mk_slot (at_time 14 0) (at_time 15 0)],
                        [second_slot (at_time 11 0) (at_time 12 0)]]))
   \<and> query_stylists two_stylists_db 1 None
       = [mk_stylist (Some [(''monday'', [block 9 10, block 14 15])]), second_stylist]
   \<and> 0 \<le> sv_duration_minutes manicure
   \<and> blocks_ascending [block 9 10, block 14 15]
   \<and> blocks_ascending [block 11 12]
   \<and> sorted (map ts_start_time [mk_slot (at_time 9 0) (at_time 10 0),
                                 mk_slot (at_time 14 0) (at_time 15 0)])
   \<and> sorted (map ts_start_time [second_slot (at_time 11 0) (at_time 12 0)])"
proof -
  let ?st1 = "mk_stylist (Some [(''monday'', [block 9 10, block 14 15])])"
  let ?s1 = "mk_slot (at_time 9 0) (at_time 10 0)"
  let ?s2 = "mk_slot (at_time 14 0) (at_time 15 0)"
  let ?s3 = "second_slot (at_time 11 0) (at_time 12 0)"
  have sv: "get_service two_stylists_db 1 = Some manicure"
    by (simp add: get_service_def two_stylists_db_def ex_defs)
  have dur: "0 \<le> sv_duration_minutes manicure"
    by (simp add: manicure_def)
  have q: "query_stylists two_stylists_db 1 None = [?st1, second_stylist]"
    by (simp add: query_stylists_def two_stylists_db_def second_stylist_def ex_defs)
  have b1: "day_blocks ?st1 monday = [block 9 10, block 14 15]"
    by (simp add: day_blocks_def hours_get_def day_of_week_monday0 mk_stylist_def)
  have b2: "day_blocks second_stylist monday = [block 11 12]"
    by (simp add: day_blocks_def hours_get_def day_of_week_monday0 second_stylist_def)
  have asc1: "blocks_ascending [block 9 10, block 14 15]"
    by (simp add: blocks_ascending_def block_def)
  have asc2: "blocks_ascending [block 11 12]"
    by (simp add: blocks_ascending_def)
  have ids: "ts_stylist_id ?s1 = 1" "ts_stylist_id ?s2 = 1" "ts_stylist_id ?s3 = 2"
    "st_id ?st1 = 1" "st_id second_stylist = 2"
    by (simp_all add: mk_slot_def second_slot_def mk_stylist_def second_stylist_def)
  from slots_grouped_and_ascending [OF check_availability_two_stylists]
  obtain service groups where
    sv': "get_service two_stylists_db 1 = Some service" and
    cg: "[?s1, ?s2, ?s3] = concat groups" and
    L: "list_all2
          (\<lambda>stylist group.
             (\<forall>s \<in> set group. ts_stylist_id s = st_id stylist)
             \<and> (\<exists>parts. group = concat parts
                   \<and> list_all2
                       (\<lambda>b part. sorted_wrt (<) (map ts_start_time part)
                                  \<and> (\<forall>s \<in> set part.
                                        contains (block_range monday b) (slot_range s)))
                       (day_blocks stylist monday) parts)
             \<and> (0 \<le> sv_duration_minutes service
                   \<and> blocks_ascending (day_blocks stylist monday)
                 \<longrightarrow> sorted (map ts_start_time group)))
          [?st1, second_stylist] groups"
    unfolding q by blast
  from sv sv' have service: "service = manicure" by simp
  have "list_all2
          (\<lambda>stylist group.
             (\<forall>s \<in> set group. ts_stylist_id s = st_id stylist)
             \<and> (blocks_ascending (day_blocks stylist monday)
                 \<longrightarrow> sorted (map ts_start_time group)))
          [?st1, second_stylist] groups"
    using dur by (intro list_all2_mono [OF L [unfolded service]]) blast
  then obtain g1 g2 where
    c: "[?s1, ?s2, ?s3] = g1 @ g2" and
    i1: "\<forall>s \<in> set g1. ts_stylist_id s = 1" and
    i2: "\<forall>s \<in> set g2. ts_stylist_id s = 2" and
    o1: "sorted (map ts_start_time g1)" and
    o2: "sorted (map ts_start_time g2)"
    using cg asc1 asc2 b1 b2 ids
    by (auto simp: list_all2_Cons1)
  from c i1 i2 ids have "g1 = [?s1, ?s2] \<and> g2 = [?s3]"
    by (auto simp: Cons_eq_append_conv)
  with o1 o2 check_availability_two_stylists q dur asc1 asc2 show ?thesis
    by simp
qed

end
